theory Spec2Isabelle
  imports Complex_Main "HOL-Library.Sublist"
begin

section \<open>Schema types (internal/schema/types.go)\<close>

text \<open>
  \<^verbatim>\<open>Severity\<close>, \<^verbatim>\<open>Verdict\<close> and \<^verbatim>\<open>Category\<close> are Go string types: a value decoded from
  model output may be any string, which is why the validator checks them. They are
  strings here too, with the named constants of the source.
  Go's \<^verbatim>\<open>int\<close> is modelled by \<open>int\<close>: line numbers are only compared, and the
  counters of the scorer move by at most 20 per list element, so a 64-bit integer
  cannot wrap on any slice that fits in memory.
\<close>

type_synonym Severity = string
type_synonym Verdict = string
type_synonym Category = string

definition SeverityInfo :: Severity where "SeverityInfo = ''INFO''"
definition SeverityWarn :: Severity where "SeverityWarn = ''WARN''"
definition SeverityCritical :: Severity where "SeverityCritical = ''CRITICAL''"

definition VerdictValid :: Verdict where "VerdictValid = ''VALID''"
definition VerdictValidWithGaps :: Verdict where "VerdictValidWithGaps = ''VALID_WITH_GAPS''"
definition VerdictInvalid :: Verdict where "VerdictInvalid = ''INVALID''"

definition CategoryNonTestableRequirement :: Category where
  "CategoryNonTestableRequirement = ''NON_TESTABLE_REQUIREMENT''"
definition CategoryAmbiguousBehavior :: Category where
  "CategoryAmbiguousBehavior = ''AMBIGUOUS_BEHAVIOR''"
definition CategoryContradiction :: Category where
  "CategoryContradiction = ''CONTRADICTION''"
definition CategoryMissingFailureMode :: Category where
  "CategoryMissingFailureMode = ''MISSING_FAILURE_MODE''"
definition CategoryUndefinedInterface :: Category where
  "CategoryUndefinedInterface = ''UNDEFINED_INTERFACE''"
definition CategoryMissingInvariant :: Category where
  "CategoryMissingInvariant = ''MISSING_INVARIANT''"
definition CategoryScopeLeak :: Category where
  "CategoryScopeLeak = ''SCOPE_LEAK''"
definition CategoryOrderingUndefined :: Category where
  "CategoryOrderingUndefined = ''ORDERING_UNDEFINED''"
definition CategoryTerminologyInconsistent :: Category where
  "CategoryTerminologyInconsistent = ''TERMINOLOGY_INCONSISTENT''"
definition CategoryUnspecifiedConstraint :: Category where
  "CategoryUnspecifiedConstraint = ''UNSPECIFIED_CONSTRAINT''"
definition CategoryAssumptionRequired :: Category where
  "CategoryAssumptionRequired = ''ASSUMPTION_REQUIRED''"

definition IsValidCategory :: "Category \<Rightarrow> bool" where
  "IsValidCategory c =
     (c = CategoryNonTestableRequirement \<or> c = CategoryAmbiguousBehavior
      \<or> c = CategoryContradiction \<or> c = CategoryMissingFailureMode
      \<or> c = CategoryUndefinedInterface \<or> c = CategoryMissingInvariant
      \<or> c = CategoryScopeLeak \<or> c = CategoryOrderingUndefined
      \<or> c = CategoryTerminologyInconsistent \<or> c = CategoryUnspecifiedConstraint
      \<or> c = CategoryAssumptionRequired)"

record Evidence =
  Path :: string
  LineStart :: int
  LineEnd :: int
  Quote :: string

record Issue =
  ID :: string
  Severity :: Severity
  Category :: Category
  Title :: string
  Description :: string
  Evidence :: "Evidence list"
  Impact :: string
  Recommendation :: string
  Blocking :: bool
  Tags :: "string list"

record Question =
  ID :: string
  Severity :: Severity
  Question :: string
  WhyNeeded :: string
  Blocks :: "string list"
  Evidence :: "Evidence list"

record Patch =
  IssueID :: string
  Before :: string
  After :: string

record Input =
  SpecFile :: string
  SpecHash :: string
  ContextFiles :: "string list"
  Profile :: string
  Strict :: bool
  SeverityThreshold :: string

record Summary =
  Verdict :: Verdict
  Score :: int
  CriticalCount :: int
  WarnCount :: int
  InfoCount :: int

text \<open>\<^verbatim>\<open>Temperature\<close> is a float64 that the program only copies; it is a real here.\<close>

record Meta =
  Model :: string
  Temperature :: real

record Report =
  Tool :: string
  Version :: string
  Input :: Input
  Summary :: Summary
  Issues :: "Issue list"
  Questions :: "Question list"
  Patches :: "Patch list"
  Meta :: Meta

section \<open>Scoring, verdict, counts and the severity filter (internal/review/score.go)\<close>

text \<open>The loop body of \<^verbatim>\<open>Score\<close>: one \<^verbatim>\<open>switch\<close> on the severity, no default case.\<close>

fun Score_loop :: "Issue list \<Rightarrow> int \<Rightarrow> int" where
  "Score_loop [] score = score"
| "Score_loop (issue # issues) score =
     Score_loop issues
       (if Issue.Severity issue = SeverityCritical then score - 20
        else if Issue.Severity issue = SeverityWarn then score - 7
        else if Issue.Severity issue = SeverityInfo then score - 2
        else score)"

definition Score :: "Issue list \<Rightarrow> int" where
  "Score issues = (let score = Score_loop issues 100 in if score < 0 then 0 else score)"

text \<open>
  \<^verbatim>\<open>Verdict\<close> runs three loops with early returns, then tests the length of the issue
  list. Each loop is a function that reports whether it returned.
\<close>

fun anyIssueSeverity :: "Severity \<Rightarrow> Issue list \<Rightarrow> bool" where
  "anyIssueSeverity s [] = False"
| "anyIssueSeverity s (issue # issues) =
     (if Issue.Severity issue = s then True else anyIssueSeverity s issues)"

fun anyQuestionSeverity :: "Severity \<Rightarrow> Question list \<Rightarrow> bool" where
  "anyQuestionSeverity s [] = False"
| "anyQuestionSeverity s (q # qs) =
     (if Question.Severity q = s then True else anyQuestionSeverity s qs)"

definition Verdict :: "Issue list \<Rightarrow> Question list \<Rightarrow> Verdict" where
  "Verdict issues questions =
     (if anyIssueSeverity SeverityCritical issues then VerdictInvalid
      else if anyQuestionSeverity SeverityCritical questions then VerdictInvalid
      else if anyIssueSeverity SeverityWarn issues then VerdictValidWithGaps
      else if length issues > 0 then VerdictValidWithGaps
      else VerdictValid)"

text \<open>\<^verbatim>\<open>Counts\<close> returns its three named results, all starting at zero.\<close>

fun Counts_loop :: "Issue list \<Rightarrow> int \<times> int \<times> int \<Rightarrow> int \<times> int \<times> int" where
  "Counts_loop [] acc = acc"
| "Counts_loop (issue # issues) (critical, warn, info) =
     Counts_loop issues
       (if Issue.Severity issue = SeverityCritical then (critical + 1, warn, info)
        else if Issue.Severity issue = SeverityWarn then (critical, warn + 1, info)
        else if Issue.Severity issue = SeverityInfo then (critical, warn, info + 1)
        else (critical, warn, info))"

definition Counts :: "Issue list \<Rightarrow> int \<times> int \<times> int" where
  "Counts issues = Counts_loop issues (0, 0, 0)"

definition severityOrdinal :: "Severity \<Rightarrow> int" where
  "severityOrdinal s =
     (if s = SeverityInfo then 0
      else if s = SeverityWarn then 1
      else if s = SeverityCritical then 2
      else - 1)"

definition meetsSeverity :: "Severity \<Rightarrow> Severity \<Rightarrow> bool" where
  "meetsSeverity s threshold = (severityOrdinal s \<ge> severityOrdinal threshold)"

text \<open>The loop of \<^verbatim>\<open>FilterBySeverity\<close> appends to \<^verbatim>\<open>out\<close>, which starts empty.\<close>

fun FilterBySeverity_loop :: "Issue list \<Rightarrow> Severity \<Rightarrow> Issue list \<Rightarrow> Issue list" where
  "FilterBySeverity_loop [] threshold out = out"
| "FilterBySeverity_loop (issue # issues) threshold out =
     FilterBySeverity_loop issues threshold
       (if meetsSeverity (Issue.Severity issue) threshold then out @ [issue] else out)"

definition FilterBySeverity :: "Issue list \<Rightarrow> Severity \<Rightarrow> Issue list" where
  "FilterBySeverity issues threshold =
     (if threshold = SeverityInfo then issues
      else FilterBySeverity_loop issues threshold [])"

section \<open>Library functions the program calls\<close>

text \<open>
  The functions of Go's \<^verbatim>\<open>strings\<close> package that work on bytes are defined here on
  byte lists. \<^verbatim>\<open>strings.Contains s sub\<close> is \<^term>\<open>sublist sub s\<close>, \<^verbatim>\<open>strings.HasPrefix s p\<close>
  is \<^term>\<open>prefix p s\<close> and \<^verbatim>\<open>strings.HasSuffix s p\<close> is \<^term>\<open>suffix p s\<close>.
\<close>

definition Contains :: "string \<Rightarrow> string \<Rightarrow> bool" where
  "Contains s sub = sublist sub s"

definition HasPrefix :: "string \<Rightarrow> string \<Rightarrow> bool" where
  "HasPrefix s p = prefix p s"

definition HasSuffix :: "string \<Rightarrow> string \<Rightarrow> bool" where
  "HasSuffix s p = suffix p s"

text \<open>\<^verbatim>\<open>strings.Index\<close> and \<^verbatim>\<open>strings.LastIndex\<close>: the first and the last position, or -1.\<close>

fun Index :: "string \<Rightarrow> string \<Rightarrow> int" where
  "Index [] sub = (if sub = [] then 0 else - 1)"
| "Index (c # s) sub =
     (if prefix sub (c # s) then 0
      else (let r = Index s sub in if r \<ge> 0 then r + 1 else - 1))"

fun LastIndex :: "string \<Rightarrow> string \<Rightarrow> int" where
  "LastIndex [] sub = (if sub = [] then 0 else - 1)"
| "LastIndex (c # s) sub =
     (let r = LastIndex s sub in
      if r \<ge> 0 then r + 1 else if prefix sub (c # s) then 0 else - 1)"

text \<open>The \<^verbatim>\<open>%d\<close> verb of \<^verbatim>\<open>fmt\<close>: decimal digits, with a minus sign below zero.\<close>

fun natToDec :: "nat \<Rightarrow> string" where
  "natToDec n =
     (if n < 10 then [char_of (48 + n)]
      else natToDec (n div 10) @ [char_of (48 + n mod 10)])"

declare natToDec.simps [simp del]

definition fmt_d :: "int \<Rightarrow> string" where
  "fmt_d i = (if i < 0 then CHR ''-'' # natToDec (nat (- i)) else natToDec (nat i))"

text \<open>
  What is not byte arithmetic is taken as a parameter, since it belongs to Go's
  libraries and not to this repository: \<^verbatim>\<open>strings.TrimSpace\<close> (Unicode white space),
  \<^verbatim>\<open>json.Unmarshal\<close> into a \<^verbatim>\<open>schema.Report\<close> (the message of its error, or the decoded
  report) and the \<^verbatim>\<open>%q\<close> verb of \<^verbatim>\<open>fmt\<close> (\<^verbatim>\<open>strconv.Quote\<close>).
\<close>

record GoLib =
  TrimSpace :: "string \<Rightarrow> string"
  Unmarshal :: "string \<Rightarrow> string + Report"
  fmt_q :: "string \<Rightarrow> string"

text \<open>
  On a string of printable ASCII characters other than the double quote and the
  backslash, \<^verbatim>\<open>%q\<close> prints the string between double quotes. The evaluated examples
  below use \<open>quotePlain\<close> on such strings only.
\<close>

definition quotePlain :: "string \<Rightarrow> string" where
  "quotePlain s = [CHR 0x22] @ s @ [CHR 0x22]"

section \<open>Validation of model output (internal/schema/validate/validate.go)\<close>

text \<open>
  The errors of the package are built by \<^verbatim>\<open>fmt.Errorf\<close>. Each constructor is one call
  site and holds the arguments passed there; \<open>Error\<close> is the message Go formats from
  them. The first argument of the validation errors is the \<^verbatim>\<open>prefix\<close> string.
\<close>

datatype ValidationError =
    JSONParseFailed string
  | IssueIDFormat string string
  | InvalidSeverity string Severity
  | UnknownCategory string Category
  | TitleRequired string
  | QuestionIDFormat string string
  | QuestionTextRequired string
  | LineStartBelowOne string int
  | LineEndBelowStart string int int
  | LineEndExceedsCount string int int

text \<open>The bytes E2 89 A5 are the UTF-8 encoding of the sign "greater than or equal".\<close>

definition geq_sign :: string where
  "geq_sign = [CHR 0xE2, CHR 0x89, CHR 0xA5]"

fun Error :: "(string \<Rightarrow> string) \<Rightarrow> ValidationError \<Rightarrow> string" where
  "Error q (JSONParseFailed err) = ''JSON parse failed: '' @ err"
| "Error q (IssueIDFormat pre v) = pre @ '': id '' @ q v @ '' does not match ISSUE-XXXX format''"
| "Error q (InvalidSeverity pre s) =
     pre @ '': invalid severity '' @ q s @ '' (must be INFO, WARN, or CRITICAL)''"
| "Error q (UnknownCategory pre c) = pre @ '': unknown category '' @ q c"
| "Error q (TitleRequired pre) = pre @ '': title is required''"
| "Error q (QuestionIDFormat pre v) = pre @ '': id '' @ q v @ '' does not match Q-XXXX format''"
| "Error q (QuestionTextRequired pre) = pre @ '': question text is required''"
| "Error q (LineStartBelowOne pre ls) =
     pre @ '': line_start '' @ fmt_d ls @ '' must be '' @ geq_sign @ '' 1''"
| "Error q (LineEndBelowStart pre le ls) =
     pre @ '': line_end '' @ fmt_d le @ '' must be '' @ geq_sign @ '' line_start '' @ fmt_d ls"
| "Error q (LineEndExceedsCount pre le n) =
     pre @ '': line_end '' @ fmt_d le @ '' exceeds spec line count '' @ fmt_d n"

text \<open>
  The two patterns are anchored at both ends and \<^verbatim>\<open>\d\<close> is an ASCII digit, so a match
  is the literal head followed by exactly four digits.
\<close>

definition isDigit :: "char \<Rightarrow> bool" where
  "isDigit c = (c \<in> set ''0123456789'')"

definition issueIDPattern :: "string \<Rightarrow> bool" where
  "issueIDPattern s = (take 6 s = ''ISSUE-'' \<and> length s = 10 \<and> list_all isDigit (drop 6 s))"

definition questionIDPattern :: "string \<Rightarrow> bool" where
  "questionIDPattern s = (take 2 s = ''Q-'' \<and> length s = 6 \<and> list_all isDigit (drop 2 s))"

definition stripFences :: "(string \<Rightarrow> string) \<Rightarrow> string \<Rightarrow> string" where
  "stripFences trim s0 =
     (let s1 = trim s0;
          s2 = (if HasPrefix s1 ''```''
                then (let idx = Index s1 [CHR 0x0A] in
                      if idx \<ge> 0 then drop (nat (idx + 1)) s1 else s1)
                else s1);
          s3 = (if HasSuffix s2 ''```''
                then (let idx = LastIndex s2 (CHR 0x0A # ''```'') in
                      if idx \<ge> 0 then take (nat idx) s2 else s2)
                else s2)
      in trim s3)"

definition validateSeverity :: "Severity \<Rightarrow> string \<Rightarrow> ValidationError option" where
  "validateSeverity s pre =
     (if s = SeverityInfo \<or> s = SeverityWarn \<or> s = SeverityCritical then None
      else Some (InvalidSeverity pre s))"

definition validateEvidence :: "Evidence \<Rightarrow> string \<Rightarrow> int \<Rightarrow> ValidationError option" where
  "validateEvidence ev pre lineCount =
     (if LineStart ev < 1 then Some (LineStartBelowOne pre (LineStart ev))
      else if LineEnd ev < LineStart ev
        then Some (LineEndBelowStart pre (LineEnd ev) (LineStart ev))
      else if lineCount > 0 \<and> LineEnd ev > lineCount
        then Some (LineEndExceedsCount pre (LineEnd ev) lineCount)
      else None)"

text \<open>The loop over the evidence of one finding; \<open>j\<close> is the index of the head.\<close>

fun validateEvidence_loop ::
  "Evidence list \<Rightarrow> nat \<Rightarrow> string \<Rightarrow> int \<Rightarrow> ValidationError option" where
  "validateEvidence_loop [] j pre lineCount = None"
| "validateEvidence_loop (ev # evs) j pre lineCount =
     (case validateEvidence ev (pre @ ''.evidence['' @ natToDec j @ '']'') lineCount of
        Some err \<Rightarrow> Some err
      | None \<Rightarrow> validateEvidence_loop evs (Suc j) pre lineCount)"

definition validateIssue :: "Issue \<Rightarrow> nat \<Rightarrow> int \<Rightarrow> ValidationError option" where
  "validateIssue issue idx lineCount =
     (let pre = ''issue['' @ natToDec idx @ '']'' in
      if \<not> issueIDPattern (Issue.ID issue) then Some (IssueIDFormat pre (Issue.ID issue))
      else case validateSeverity (Issue.Severity issue) pre of
        Some err \<Rightarrow> Some err
      | None \<Rightarrow>
          if \<not> IsValidCategory (Category issue) then Some (UnknownCategory pre (Category issue))
          else if Title issue = [] then Some (TitleRequired pre)
          else validateEvidence_loop (Issue.Evidence issue) 0 pre lineCount)"

definition validateQuestion :: "Question \<Rightarrow> nat \<Rightarrow> int \<Rightarrow> ValidationError option" where
  "validateQuestion q idx lineCount =
     (let pre = ''question['' @ natToDec idx @ '']'' in
      if \<not> questionIDPattern (Question.ID q) then Some (QuestionIDFormat pre (Question.ID q))
      else case validateSeverity (Question.Severity q) pre of
        Some err \<Rightarrow> Some err
      | None \<Rightarrow>
          if Question q = [] then Some (QuestionTextRequired pre)
          else validateEvidence_loop (Question.Evidence q) 0 pre lineCount)"

fun validateIssues_loop :: "Issue list \<Rightarrow> nat \<Rightarrow> int \<Rightarrow> ValidationError option" where
  "validateIssues_loop [] i lineCount = None"
| "validateIssues_loop (issue # issues) i lineCount =
     (case validateIssue issue i lineCount of
        Some err \<Rightarrow> Some err
      | None \<Rightarrow> validateIssues_loop issues (Suc i) lineCount)"

fun validateQuestions_loop :: "Question list \<Rightarrow> nat \<Rightarrow> int \<Rightarrow> ValidationError option" where
  "validateQuestions_loop [] i lineCount = None"
| "validateQuestions_loop (q # qs) i lineCount =
     (case validateQuestion q i lineCount of
        Some err \<Rightarrow> Some err
      | None \<Rightarrow> validateQuestions_loop qs (Suc i) lineCount)"

definition validateReport :: "Report \<Rightarrow> int \<Rightarrow> ValidationError option" where
  "validateReport r lineCount =
     (case validateIssues_loop (Issues r) 0 lineCount of
        Some err \<Rightarrow> Some err
      | None \<Rightarrow> validateQuestions_loop (Questions r) 0 lineCount)"

text \<open>\<^verbatim>\<open>Parse\<close> returns the report or the error, never both.\<close>

definition Parse :: "GoLib \<Rightarrow> string \<Rightarrow> int \<Rightarrow> ValidationError + Report" where
  "Parse lib raw lineCount =
     (let cleaned = stripFences (TrimSpace lib) raw in
      case Unmarshal lib cleaned of
        Inl err \<Rightarrow> Inl (JSONParseFailed err)
      | Inr report \<Rightarrow>
          (case validateReport report lineCount of
             Some err \<Rightarrow> Inl err
           | None \<Rightarrow> Inr report))"

section \<open>The call with one repair attempt (cmd/speccritic/main.go)\<close>

record Request =
  SystemPrompt :: string
  UserPrompt :: string
  Temperature :: real
  MaxTokens :: int
  Model :: string

record Response =
  Content :: string
  Model :: string

text \<open>
  \<^verbatim>\<open>Provider.Complete\<close> is the external call. It may answer differently each time, so
  a provider is a state \<open>'p\<close> and a function from the state and the request to the
  answer (the message of the transport error, or the response) and the next state.
\<close>

type_synonym 'p Complete = "'p \<Rightarrow> Request \<Rightarrow> (string + Response) \<times> 'p"

text \<open>The three errors \<^verbatim>\<open>callWithRetry\<close> builds, each wrapping its cause with \<^verbatim>\<open>%w\<close>.\<close>

datatype CallError =
    LLMCallFailed string
  | LLMRetryCallFailed string
  | InvalidAfterRetry ValidationError

fun CallError_Error :: "(string \<Rightarrow> string) \<Rightarrow> CallError \<Rightarrow> string" where
  "CallError_Error q (LLMCallFailed err) = ''LLM call failed: '' @ err"
| "CallError_Error q (LLMRetryCallFailed err) = ''LLM retry call failed: '' @ err"
| "CallError_Error q (InvalidAfterRetry perr) = ''invalid model output after retry: '' @ Error q perr"

text \<open>\<^verbatim>\<open>sanitizeErrForPrompt\<close> reads the message of the error, first matching case first.\<close>

definition sanitizeErrForPrompt :: "string \<Rightarrow> string" where
  "sanitizeErrForPrompt msg =
     (if HasPrefix msg ''JSON parse failed'' then ''JSON syntax error''
      else if Contains msg ''invalid severity''
        then ''invalid enum value (severity must be INFO, WARN, or CRITICAL)''
      else if Contains msg ''unknown category''
        then ''invalid enum value (unknown defect category)''
      else if Contains msg ''title is required'' \<or> Contains msg ''question text is required''
        then ''missing required field''
      else if Contains msg ''does not match ISSUE-'' \<or> Contains msg ''does not match Q-''
        then ''invalid ID format''
      else if Contains msg ''line_start'' \<or> Contains msg ''line_end''
        then ''invalid line range in evidence''
      else ''schema validation error'')"

text \<open>The text appended to the user prompt of the repair request.\<close>

definition repairSuffix :: "(string \<Rightarrow> string) \<Rightarrow> ValidationError \<Rightarrow> string" where
  "repairSuffix q parseErr =
     [CHR 0x0A, CHR 0x0A]
     @ ''Your previous response failed schema validation (error category: ''
     @ q (sanitizeErrForPrompt (Error q parseErr))
     @ ''). Return only valid JSON matching the schema above.''"

text \<open>
  \<^verbatim>\<open>callWithRetry\<close> returns the report with the model string, or the error; the state
  of the provider after the calls is returned beside it. The verbose log line on
  standard error is left out.
\<close>

definition callWithRetry ::
  "GoLib \<Rightarrow> 'p Complete \<Rightarrow> 'p \<Rightarrow> Request \<Rightarrow> int \<Rightarrow> (CallError + Report \<times> string) \<times> 'p" where
  "callWithRetry lib provider p req lineCount =
     (case provider p req of
        (Inl err, p1) \<Rightarrow> (Inl (LLMCallFailed err), p1)
      | (Inr resp, p1) \<Rightarrow>
          (case Parse lib (Content resp) lineCount of
             Inr report \<Rightarrow> (Inr (report, Response.Model resp), p1)
           | Inl parseErr \<Rightarrow>
               (let repairReq = req\<lparr>UserPrompt := UserPrompt req @ repairSuffix (fmt_q lib) parseErr\<rparr>
                in case provider p1 repairReq of
                     (Inl err, p2) \<Rightarrow> (Inl (LLMRetryCallFailed err), p2)
                   | (Inr resp2, p2) \<Rightarrow>
                       (case Parse lib (Content resp2) lineCount of
                          Inl parseErr2 \<Rightarrow> (Inl (InvalidAfterRetry parseErr2), p2)
                        | Inr report \<Rightarrow> (Inr (report, Response.Model resp2), p2)))))"

text \<open>
  To speak about the calls made, a provider is wrapped so that its state also holds
  the list of the requests it has received, oldest first.
\<close>

definition recording :: "'p Complete \<Rightarrow> ('p \<times> Request list) Complete" where
  "recording provider = (\<lambda>(p, calls) req.
     (case provider p req of (res, p') \<Rightarrow> (res, (p', calls @ [req]))))"

section \<open>The rest of \<^verbatim>\<open>runCheck\<close> (cmd/speccritic/main.go)\<close>

record exitErr =
  code :: int
  msg :: string

definition codeError :: "int \<Rightarrow> string \<Rightarrow> exitErr" where
  "codeError c m = \<lparr>code = c, msg = m\<rparr>"

record checkFlags =
  format :: string
  out :: string
  contextFiles :: "string list"
  profileName :: string
  strict :: bool
  failOn :: string
  severityThreshold :: string
  patchOut :: string
  temperature :: real
  maxTokens :: int
  offline :: bool
  verbose :: bool
  debug :: bool

definition parseSeverityThreshold :: "string \<Rightarrow> Severity" where
  "parseSeverityThreshold s =
     (if s = ''warn'' then SeverityWarn
      else if s = ''critical'' then SeverityCritical
      else SeverityInfo)"

text \<open>Step 11 of \<^verbatim>\<open>runCheck\<close>: every error of \<^verbatim>\<open>callWithRetry\<close> leaves through one return.\<close>

definition runCheck_step11 ::
  "GoLib \<Rightarrow> 'p Complete \<Rightarrow> 'p \<Rightarrow> Request \<Rightarrow> int \<Rightarrow> (exitErr + Report \<times> string) \<times> 'p" where
  "runCheck_step11 lib provider p req lineCount =
     (case callWithRetry lib provider p req lineCount of
        (Inl callErr, p') \<Rightarrow> (Inl (codeError 5 (CallError_Error (fmt_q lib) callErr)), p')
      | (Inr res, p') \<Rightarrow> (Inr res, p'))"

text \<open>
  Steps 12 to 14: the summary is computed, the report fields are filled in, and only
  then the issue list is replaced by its filtered form. \<open>specHash\<close> is the hash of the
  loaded spec file and \<open>version\<close> the build's version string.
\<close>

definition runCheck_steps12to14 ::
  "string \<Rightarrow> string \<Rightarrow> string \<Rightarrow> checkFlags \<Rightarrow> string \<Rightarrow> Report \<Rightarrow> Report" where
  "runCheck_steps12to14 version specPath specHash flags llmModel report0 =
     (let score = Score (Issues report0);
          verdict = Verdict (Issues report0) (Questions report0);
          (critical, warn, info) = Counts (Issues report0);
          report1 = report0\<lparr>
            Tool := ''speccritic'',
            Version := version,
            Input := \<lparr>SpecFile = specPath, SpecHash = specHash,
                       ContextFiles = contextFiles flags, Profile = profileName flags,
                       Strict = strict flags, SeverityThreshold = severityThreshold flags\<rparr>,
            Summary := \<lparr>Summary.Verdict = verdict, Summary.Score = score, CriticalCount = critical,
                         WarnCount = warn, InfoCount = info\<rparr>,
            Meta := \<lparr>Meta.Model = llmModel, Meta.Temperature = temperature flags\<rparr>\<rparr>;
          severityFilter = parseSeverityThreshold (severityThreshold flags)
      in report1\<lparr>Issues := FilterBySeverity (Issues report1) severityFilter\<rparr>)"

section \<open>Patch anchoring (internal/patch/patch.go)\<close>

record diffPatch =
  issueID :: string
  before :: string
  after :: string











section \<open>Notions used to state the properties\<close>

text \<open>The number of issues of one severity, as an integer like the counters of the code.\<close>

definition countSeverity :: "Severity \<Rightarrow> Issue list \<Rightarrow> int" where
  "countSeverity s issues = int (length (filter (\<lambda>i. Issue.Severity i = s) issues))"

text \<open>
  The constraints of the specification on findings, in its own words: the line bounds
  of an evidence entry (with the upper bound only for a positive line count), and
  the format, enumeration and presence rules of issues and questions.
\<close>

definition evidenceInBounds :: "int \<Rightarrow> Evidence \<Rightarrow> bool" where
  "evidenceInBounds lineCount ev =
     (1 \<le> LineStart ev \<and> LineStart ev \<le> LineEnd ev
      \<and> (0 < lineCount \<longrightarrow> LineEnd ev \<le> lineCount))"

definition validSeverity :: "Severity \<Rightarrow> bool" where
  "validSeverity s = (s \<in> {SeverityInfo, SeverityWarn, SeverityCritical})"

definition issueConstraints :: "int \<Rightarrow> Issue \<Rightarrow> bool" where
  "issueConstraints lineCount issue =
     (issueIDPattern (Issue.ID issue) \<and> validSeverity (Issue.Severity issue)
      \<and> IsValidCategory (Category issue) \<and> Title issue \<noteq> []
      \<and> (\<forall>ev\<in>set (Issue.Evidence issue). evidenceInBounds lineCount ev))"

definition questionConstraints :: "int \<Rightarrow> Question \<Rightarrow> bool" where
  "questionConstraints lineCount q =
     (questionIDPattern (Question.ID q) \<and> validSeverity (Question.Severity q)
      \<and> Question q \<noteq> []
      \<and> (\<forall>ev\<in>set (Question.Evidence q). evidenceInBounds lineCount ev))"

text \<open>The seven strings \<^verbatim>\<open>sanitizeErrForPrompt\<close> can return, in the order of its cases.\<close>

definition errorCategories :: "string list" where
  "errorCategories =
     [''JSON syntax error'',
      ''invalid enum value (severity must be INFO, WARN, or CRITICAL)'',
      ''invalid enum value (unknown defect category)'',
      ''missing required field'',
      ''invalid ID format'',
      ''invalid line range in evidence'',
      ''schema validation error'']"

section \<open>Concrete values for the evaluated examples\<close>

definition exampleEvidence :: "int \<Rightarrow> int \<Rightarrow> Evidence" where
  "exampleEvidence ls le = \<lparr>Path = ''SPEC.md'', LineStart = ls, LineEnd = le, Quote = ''q''\<rparr>"

definition exampleIssue :: "string \<Rightarrow> Severity \<Rightarrow> Evidence list \<Rightarrow> Issue" where
  "exampleIssue i s evs =
     \<lparr>Issue.ID = i, Issue.Severity = s, Category = ''CONTRADICTION'', Title = ''Units differ'',
      Description = [], Issue.Evidence = evs, Impact = [], Recommendation = [],
      Blocking = False, Tags = []\<rparr>"


text \<open>A report as \<^verbatim>\<open>json.Unmarshal\<close> leaves it: the fields absent from the text are zero.\<close>

definition exampleReport :: "Issue list \<Rightarrow> Question list \<Rightarrow> Patch list \<Rightarrow> Report" where
  "exampleReport is qs ps =
     \<lparr>Tool = [], Version = [],
      Input = \<lparr>SpecFile = [], SpecHash = [], ContextFiles = [], Profile = [], Strict = False,
                SeverityThreshold = []\<rparr>,
      Summary = \<lparr>Summary.Verdict = [], Summary.Score = 0, CriticalCount = 0, WarnCount = 0,
                  InfoCount = 0\<rparr>,
      Issues = is, Questions = qs, Patches = ps,
      Meta = \<lparr>Meta.Model = [], Meta.Temperature = 0\<rparr>\<rparr>"

text \<open>Three model outputs and what \<^verbatim>\<open>json.Unmarshal\<close> makes of them.\<close>

definition goodJSON :: string where
  \<open>goodJSON = ''{"issues":[{"id":"ISSUE-0001","severity":"INFO","category":"CONTRADICTION","title":"Units differ","evidence":[{"path":"SPEC.md","line_start":1,"line_end":2,"quote":"q"}]}],"patches":[{"issue_id":"","before":"","after":""},{"issue_id":"ISSUE-9999","before":"x","after":"y"},{"issue_id":"seven","before":"","after":"z"}]}''\<close>

definition oddPatches :: "Patch list" where
  "oddPatches =
     [\<lparr>IssueID = [], Before = [], After = []\<rparr>,
      \<lparr>IssueID = ''ISSUE-9999'', Before = ''x'', After = ''y''\<rparr>,
      \<lparr>IssueID = ''seven'', Before = [], After = ''z''\<rparr>]"

definition goodReport :: Report where
  "goodReport =
     exampleReport [exampleIssue ''ISSUE-0001'' SeverityInfo [exampleEvidence 1 2]] [] oddPatches"

definition outOfBoundsJSON :: string where
  \<open>outOfBoundsJSON = ''{"issues":[{"id":"ISSUE-0001","severity":"WARN","category":"CONTRADICTION","title":"Units differ","evidence":[{"path":"SPEC.md","line_start":1,"line_end":50,"quote":"q"}]}]}''\<close>

definition outOfBoundsReport :: Report where
  "outOfBoundsReport =
     exampleReport [exampleIssue ''ISSUE-0001'' SeverityWarn [exampleEvidence 1 50]] [] []"

definition truncatedJSON :: string where
  \<open>truncatedJSON = ''{"issues":[''\<close>

text \<open>An output whose only defect is the identifier of its issue.\<close>

definition steeringJSON :: string where
  \<open>steeringJSON = ''{"issues":[{"id":"invalid severity","severity":"INFO","category":"CONTRADICTION","title":"Units differ","evidence":[{"path":"SPEC.md","line_start":1,"line_end":2,"quote":"q"}]}]}''\<close>

definition steeringReport :: Report where
  "steeringReport =
     exampleReport [exampleIssue ''invalid severity'' SeverityInfo [exampleEvidence 1 2]] [] []"

definition exampleUnmarshal :: "string \<Rightarrow> string + Report" where
  "exampleUnmarshal s =
     (if s = goodJSON then Inr goodReport
      else if s = outOfBoundsJSON then Inr outOfBoundsReport
      else if s = steeringJSON then Inr steeringReport
      else Inl ''unexpected end of JSON input'')"

text \<open>\<^verbatim>\<open>strings.TrimSpace\<close> on ASCII text: the six ASCII white space bytes are cut.\<close>

definition isASCIISpace :: "char \<Rightarrow> bool" where
  "isASCIISpace c = (c \<in> {CHR 0x09, CHR 0x0A, CHR 0x0B, CHR 0x0C, CHR 0x0D, CHR 0x20})"

definition trimSpaceASCII :: "string \<Rightarrow> string" where
  "trimSpaceASCII s = rev (dropWhile isASCIISpace (rev (dropWhile isASCIISpace s)))"

definition exampleLib :: GoLib where
  "exampleLib = \<lparr>TrimSpace = trimSpaceASCII, Unmarshal = exampleUnmarshal, fmt_q = quotePlain\<rparr>"

text \<open>A provider that plays back a list of prepared answers, then fails.\<close>

definition scripted :: "((string + Response) list) Complete" where
  "scripted answers req =
     (case answers of
        [] \<Rightarrow> (Inl ''no answer left'', [])
      | a # rest \<Rightarrow> (a, rest))"

definition exampleRequest :: Request where
  "exampleRequest =
     \<lparr>SystemPrompt = ''You are a reviewer.'', UserPrompt = ''1: The system must be fast.'',
      Request.Temperature = 0, MaxTokens = 4096, Request.Model = []\<rparr>"

definition answer :: "string \<Rightarrow> string + Response" where
  "answer text = Inr \<lparr>Content = text, Response.Model = ''anthropic:claude''\<rparr>"








definition mixedIssues :: "Issue list" where
  "mixedIssues =
     [exampleIssue ''ISSUE-0001'' SeverityCritical [], exampleIssue ''ISSUE-0002'' SeverityInfo [],
      exampleIssue ''ISSUE-0003'' SeverityWarn [], exampleIssue ''ISSUE-0004'' SeverityWarn []]"





definition threeAnswers :: "(string + Response) list" where
  "threeAnswers = [answer outOfBoundsJSON, answer outOfBoundsJSON, answer goodJSON]"






section \<open>Validation accepts exactly the reports that meet the constraints\<close>

lemma validateEvidence_None_iff:
  "validateEvidence ev pre lineCount = None \<longleftrightarrow> evidenceInBounds lineCount ev"
  by (auto simp: validateEvidence_def evidenceInBounds_def)

lemma validateEvidence_Some_iff:
  "(\<exists>e. validateEvidence ev pre lineCount = Some e) \<longleftrightarrow> \<not> evidenceInBounds lineCount ev"
  using validateEvidence_None_iff [of ev pre lineCount] by (cases "validateEvidence ev pre lineCount") auto

lemma validateEvidence_loop_None_iff:
  "validateEvidence_loop evs j pre lineCount = None
     \<longleftrightarrow> (\<forall>ev\<in>set evs. evidenceInBounds lineCount ev)"
proof (induction evs arbitrary: j)
  case Nil
  show ?case by simp
next
  case (Cons ev evs)
  show ?case
    using Cons.IH [of "Suc j"]
      validateEvidence_None_iff [of ev "pre @ ''.evidence['' @ natToDec j @ '']''" lineCount]
    by (cases "validateEvidence ev (pre @ ''.evidence['' @ natToDec j @ '']'') lineCount") auto
qed

lemma validateSeverity_None_iff: "validateSeverity s pre = None \<longleftrightarrow> validSeverity s"
  by (auto simp: validateSeverity_def validSeverity_def)

lemma validateIssue_None_iff:
  "validateIssue issue idx lineCount = None \<longleftrightarrow> issueConstraints lineCount issue"
  using validateSeverity_None_iff [of "Issue.Severity issue" "''issue['' @ natToDec idx @ '']''"]
  by (cases "validateSeverity (Issue.Severity issue) (''issue['' @ natToDec idx @ '']'')")
     (auto simp: validateIssue_def issueConstraints_def Let_def validateEvidence_loop_None_iff)

lemma validateQuestion_None_iff:
  "validateQuestion q idx lineCount = None \<longleftrightarrow> questionConstraints lineCount q"
  using validateSeverity_None_iff [of "Question.Severity q" "''question['' @ natToDec idx @ '']''"]
  by (cases "validateSeverity (Question.Severity q) (''question['' @ natToDec idx @ '']'')")
     (auto simp: validateQuestion_def questionConstraints_def Let_def
        validateEvidence_loop_None_iff)

lemma validateIssues_loop_None_iff:
  "validateIssues_loop issues k lineCount = None
     \<longleftrightarrow> (\<forall>issue\<in>set issues. issueConstraints lineCount issue)"
proof (induction issues arbitrary: k)
  case Nil
  show ?case by simp
next
  case (Cons issue issues)
  show ?case
    using Cons.IH [of "Suc k"] validateIssue_None_iff [of issue k lineCount]
    by (cases "validateIssue issue k lineCount") auto
qed

lemma validateQuestions_loop_None_iff:
  "validateQuestions_loop qs k lineCount = None
     \<longleftrightarrow> (\<forall>q\<in>set qs. questionConstraints lineCount q)"
proof (induction qs arbitrary: k)
  case Nil
  show ?case by simp
next
  case (Cons q qs)
  show ?case
    using Cons.IH [of "Suc k"] validateQuestion_None_iff [of q k lineCount]
    by (cases "validateQuestion q k lineCount") auto
qed

lemma validateReport_None_iff:
  "validateReport r lineCount = None
     \<longleftrightarrow> (\<forall>issue\<in>set (Issues r). issueConstraints lineCount issue)
        \<and> (\<forall>q\<in>set (Questions r). questionConstraints lineCount q)"
  using validateIssues_loop_None_iff [of "Issues r" 0 lineCount]
  by (cases "validateIssues_loop (Issues r) 0 lineCount")
     (auto simp: validateReport_def validateQuestions_loop_None_iff)



lemma Parse_Inr_iff:
  "Parse lib raw lineCount = Inr r \<longleftrightarrow>
     Unmarshal lib (stripFences (TrimSpace lib) raw) = Inr r \<and> validateReport r lineCount = None"
  by (auto simp: Parse_def Let_def split: sum.splits option.splits)



lemma sanitizeErrForPrompt_in_categories:
  "sanitizeErrForPrompt m \<in> set errorCategories"
  by (simp add: sanitizeErrForPrompt_def errorCategories_def)

section \<open>Properties of the scorer and the filter\<close>

lemma severity_distinct [simp]:
  "SeverityInfo \<noteq> SeverityWarn" "SeverityWarn \<noteq> SeverityInfo"
  "SeverityInfo \<noteq> SeverityCritical" "SeverityCritical \<noteq> SeverityInfo"
  "SeverityWarn \<noteq> SeverityCritical" "SeverityCritical \<noteq> SeverityWarn"
  by (simp_all add: SeverityInfo_def SeverityWarn_def SeverityCritical_def)

lemma anyIssueSeverity_iff:
  "anyIssueSeverity s issues = (\<exists>i\<in>set issues. Issue.Severity i = s)"
  by (induction issues) auto

lemma anyQuestionSeverity_iff:
  "anyQuestionSeverity s qs = (\<exists>q\<in>set qs. Question.Severity q = s)"
  by (induction qs) auto

lemma countSeverity_simps [simp]:
  "countSeverity s [] = 0"
  "countSeverity s (i # issues) = (if Issue.Severity i = s then 1 else 0) + countSeverity s issues"
  by (simp_all add: countSeverity_def)

lemma countSeverity_nonneg: "0 \<le> countSeverity s issues"
  by (simp add: countSeverity_def)

lemma Score_loop_eq:
  "Score_loop issues score =
     score - 20 * countSeverity SeverityCritical issues
           - 7 * countSeverity SeverityWarn issues
           - 2 * countSeverity SeverityInfo issues"
  by (induction issues arbitrary: score) auto

lemma Counts_loop_eq:
  "Counts_loop issues (c, w, n) =
     (c + countSeverity SeverityCritical issues,
      w + countSeverity SeverityWarn issues,
      n + countSeverity SeverityInfo issues)"
  by (induction issues arbitrary: c w n) auto

lemma Counts_eq:
  "Counts issues =
     (countSeverity SeverityCritical issues, countSeverity SeverityWarn issues,
      countSeverity SeverityInfo issues)"
  by (simp add: Counts_def Counts_loop_eq)

lemma FilterBySeverity_loop_eq:
  "FilterBySeverity_loop issues threshold acc =
     acc @ filter (\<lambda>i. meetsSeverity (Issue.Severity i) threshold) issues"
  by (induction issues arbitrary: acc) auto

lemma severityOrdinal_values:
  "severityOrdinal SeverityInfo = 0" "severityOrdinal SeverityWarn = 1"
  "severityOrdinal SeverityCritical = 2"
  by (simp_all add: severityOrdinal_def)

text \<open>
  Claim C2. For every issue list the score is 100 minus 20 for each CRITICAL issue,
  7 for each WARN issue and 2 for each INFO issue, with a negative result replaced
  by 0; it lies between 0 and 100. The questions of the report play no part in the
  score that \<^verbatim>\<open>runCheck\<close> stores in the summary. Six CRITICAL issues alone give 0.
\<close>

theorem Score_formula:
  "Score issues =
     max 0 (100 - 20 * countSeverity SeverityCritical issues
                - 7 * countSeverity SeverityWarn issues
                - 2 * countSeverity SeverityInfo issues)
   \<and> 0 \<le> Score issues \<and> Score issues \<le> 100
   \<and> Summary.Score (Summary (runCheck_steps12to14 ver specPath specHash flags llmModel
                                 (r\<lparr>Questions := qs\<rparr>))) = Score (Issues r)
   \<and> Score (replicate 6 (issue\<lparr>Issue.Severity := SeverityCritical\<rparr>)) = 0"
proof -
  let ?six = "replicate 6 (issue\<lparr>Issue.Severity := SeverityCritical\<rparr>)"
  have c: "0 \<le> countSeverity SeverityCritical issues" "0 \<le> countSeverity SeverityWarn issues"
    "0 \<le> countSeverity SeverityInfo issues"
    by (rule countSeverity_nonneg)+
  have six: "countSeverity SeverityCritical ?six = 6"
    "countSeverity SeverityWarn ?six = 0" "countSeverity SeverityInfo ?six = 0"
    by (simp_all add: countSeverity_def)
  have formula: "Score issues =
     max 0 (100 - 20 * countSeverity SeverityCritical issues
                - 7 * countSeverity SeverityWarn issues
                - 2 * countSeverity SeverityInfo issues)"
    by (simp add: Score_def Score_loop_eq Let_def)
  have range: "0 \<le> Score issues \<and> Score issues \<le> 100"
    using c by (simp add: Score_def Score_loop_eq Let_def)
  have summary: "Summary.Score (Summary (runCheck_steps12to14 ver specPath specHash flags llmModel
                                 (r\<lparr>Questions := qs\<rparr>))) = Score (Issues r)"
    by (simp add: runCheck_steps12to14_def Let_def split: prod.splits)
  have "Score ?six = 0"
    by (simp add: Score_def Score_loop_eq Let_def six)
  with formula range summary show ?thesis by blast
qed

text \<open>
  Claim C1. The verdict is INVALID if an issue or a question is CRITICAL; otherwise
  VALID_WITH_GAPS if an issue is WARN; otherwise VALID_WITH_GAPS if there is an issue
  at all; otherwise VALID. In a report accepted by validation, the issues of the
  third case all have severity INFO. No issue and one CRITICAL question give INVALID.
\<close>

theorem Verdict_decision:
  "Verdict issues questions =
     (if (\<exists>i\<in>set issues. Issue.Severity i = SeverityCritical)
         \<or> (\<exists>q\<in>set questions. Question.Severity q = SeverityCritical) then VerdictInvalid
      else if (\<exists>i\<in>set issues. Issue.Severity i = SeverityWarn) then VerdictValidWithGaps
      else if issues \<noteq> [] then VerdictValidWithGaps
      else VerdictValid)
   \<and> (validateReport r lineCount = None
        \<and> (\<forall>i\<in>set (Issues r). Issue.Severity i \<noteq> SeverityCritical)
        \<and> (\<forall>i\<in>set (Issues r). Issue.Severity i \<noteq> SeverityWarn)
      \<longrightarrow> (\<forall>i\<in>set (Issues r). Issue.Severity i = SeverityInfo))
   \<and> Verdict [] [q\<lparr>Question.Severity := SeverityCritical\<rparr>] = VerdictInvalid"
proof (intro conjI impI)
  show "Verdict issues questions =
     (if (\<exists>i\<in>set issues. Issue.Severity i = SeverityCritical)
         \<or> (\<exists>q\<in>set questions. Question.Severity q = SeverityCritical) then VerdictInvalid
      else if (\<exists>i\<in>set issues. Issue.Severity i = SeverityWarn) then VerdictValidWithGaps
      else if issues \<noteq> [] then VerdictValidWithGaps
      else VerdictValid)"
    by (simp add: Verdict_def anyIssueSeverity_iff anyQuestionSeverity_iff)
next
  assume a: "validateReport r lineCount = None
        \<and> (\<forall>i\<in>set (Issues r). Issue.Severity i \<noteq> SeverityCritical)
        \<and> (\<forall>i\<in>set (Issues r). Issue.Severity i \<noteq> SeverityWarn)"
  then have "\<forall>i\<in>set (Issues r). issueConstraints lineCount i"
    by (simp add: validateReport_None_iff)
  then have "\<forall>i\<in>set (Issues r). validSeverity (Issue.Severity i)"
    by (simp add: issueConstraints_def)
  with a show "\<forall>i\<in>set (Issues r). Issue.Severity i = SeverityInfo"
    by (auto simp: validSeverity_def)
next
  show "Verdict [] [q\<lparr>Question.Severity := SeverityCritical\<rparr>] = VerdictInvalid"
    by (simp add: Verdict_def)
qed

theorem Verdict_decision_witness:
  "validateReport goodReport 10 = None
   \<and> list_all (\<lambda>i. Issue.Severity i = SeverityInfo) (Issues goodReport)
   \<and> Verdict (Issues goodReport) (Questions goodReport) = VerdictValidWithGaps"
proof -
  have v: "validateReport goodReport 10 = None" by code_simp
  have nc: "\<forall>i\<in>set (Issues goodReport). Issue.Severity i \<noteq> SeverityCritical" by code_simp
  have nw: "\<forall>i\<in>set (Issues goodReport). Issue.Severity i \<noteq> SeverityWarn" by code_simp
  have ne: "Issues goodReport \<noteq> []" by code_simp
  have nq: "\<forall>q\<in>set (Questions goodReport). Question.Severity q \<noteq> SeverityCritical"
    by code_simp
  note d = Verdict_decision [of "Issues goodReport" "Questions goodReport" goodReport 10]
  from d v nc nw have info: "\<forall>i\<in>set (Issues goodReport). Issue.Severity i = SeverityInfo"
    by blast
  from d nc nw ne nq
  have "Verdict (Issues goodReport) (Questions goodReport) = VerdictValidWithGaps"
    by simp
  with v info show ?thesis by (simp add: list_all_iff)
qed

text \<open>
  Claim C3. The summary that \<^verbatim>\<open>runCheck\<close> emits holds the verdict, the score and the
  three counts of the unfiltered issues and questions; it is the same for every
  value of the severity threshold flag. The filter only replaces the emitted issue
  list, after the summary has been stored.
\<close>

theorem Summary_unfiltered:
  "Summary (runCheck_steps12to14 ver specPath specHash flags llmModel r) =
     \<lparr>Summary.Verdict = Verdict (Issues r) (Questions r), Summary.Score = Score (Issues r),
      CriticalCount = countSeverity SeverityCritical (Issues r),
      WarnCount = countSeverity SeverityWarn (Issues r),
      InfoCount = countSeverity SeverityInfo (Issues r)\<rparr>
   \<and> Summary (runCheck_steps12to14 ver specPath specHash
               (flags\<lparr>severityThreshold := t\<rparr>) llmModel r) =
     Summary (runCheck_steps12to14 ver specPath specHash flags llmModel r)
   \<and> Issues (runCheck_steps12to14 ver specPath specHash flags llmModel r) =
     FilterBySeverity (Issues r) (parseSeverityThreshold (severityThreshold flags))
   \<and> Questions (runCheck_steps12to14 ver specPath specHash flags llmModel r) = Questions r"
  by (simp add: runCheck_steps12to14_def Counts_eq Let_def)

text \<open>
  Claim C8. For every list of issues with severity INFO, WARN or CRITICAL and every
  threshold among the three, the filter returns, in their order, exactly the issues
  whose ordinal (INFO 0, WARN 1, CRITICAL 2) is at least the ordinal of the
  threshold. With threshold INFO it returns its argument unchanged.
\<close>

theorem FilterBySeverity_selection:
  "(threshold \<in> {SeverityInfo, SeverityWarn, SeverityCritical}
      \<and> (\<forall>i\<in>set issues. validSeverity (Issue.Severity i))
    \<longrightarrow> FilterBySeverity issues threshold =
          filter (\<lambda>i. severityOrdinal (Issue.Severity i) \<ge> severityOrdinal threshold) issues)
   \<and> FilterBySeverity issues SeverityInfo = issues
   \<and> severityOrdinal SeverityInfo = 0 \<and> severityOrdinal SeverityWarn = 1
   \<and> severityOrdinal SeverityCritical = 2"
proof (intro conjI impI)
  assume a: "threshold \<in> {SeverityInfo, SeverityWarn, SeverityCritical}
      \<and> (\<forall>i\<in>set issues. validSeverity (Issue.Severity i))"
  show "FilterBySeverity issues threshold =
      filter (\<lambda>i. severityOrdinal (Issue.Severity i) \<ge> severityOrdinal threshold) issues"
  proof (cases "threshold = SeverityInfo")
    case True
    from a have "filter (\<lambda>i. severityOrdinal (Issue.Severity i) \<ge> severityOrdinal SeverityInfo)
        issues = issues"
      by (intro filter_True) (auto simp: severityOrdinal_values validSeverity_def)
    with True show ?thesis by (simp add: FilterBySeverity_def)
  next
    case False
    then show ?thesis
      by (simp add: FilterBySeverity_def FilterBySeverity_loop_eq meetsSeverity_def)
  qed
next
  show "FilterBySeverity issues SeverityInfo = issues" by (simp add: FilterBySeverity_def)
qed (simp_all add: severityOrdinal_values)

theorem FilterBySeverity_selection_witness:
  "list_all (\<lambda>i. validSeverity (Issue.Severity i)) mixedIssues
   \<and> FilterBySeverity mixedIssues SeverityCritical = [exampleIssue ''ISSUE-0001'' SeverityCritical []]
   \<and> FilterBySeverity mixedIssues SeverityWarn =
       [exampleIssue ''ISSUE-0001'' SeverityCritical [], exampleIssue ''ISSUE-0003'' SeverityWarn [],
        exampleIssue ''ISSUE-0004'' SeverityWarn []]
   \<and> FilterBySeverity mixedIssues SeverityInfo = mixedIssues"
proof -
  have h: "\<forall>i\<in>set mixedIssues. validSeverity (Issue.Severity i)" by code_simp
  have c: "filter (\<lambda>i. severityOrdinal (Issue.Severity i) \<ge> severityOrdinal SeverityCritical)
      mixedIssues = [exampleIssue ''ISSUE-0001'' SeverityCritical []]"
    by code_simp
  have w: "filter (\<lambda>i. severityOrdinal (Issue.Severity i) \<ge> severityOrdinal SeverityWarn)
      mixedIssues
      = [exampleIssue ''ISSUE-0001'' SeverityCritical [], exampleIssue ''ISSUE-0003'' SeverityWarn [],
         exampleIssue ''ISSUE-0004'' SeverityWarn []]"
    by code_simp
  have n: "filter (\<lambda>i. severityOrdinal (Issue.Severity i) \<ge> severityOrdinal SeverityInfo)
      mixedIssues = mixedIssues"
    by code_simp
  from FilterBySeverity_selection [where issues = mixedIssues and threshold = SeverityCritical] h c
  have a: "FilterBySeverity mixedIssues SeverityCritical
      = [exampleIssue ''ISSUE-0001'' SeverityCritical []]" by simp
  from FilterBySeverity_selection [where issues = mixedIssues and threshold = SeverityWarn] h w
  have b: "FilterBySeverity mixedIssues SeverityWarn =
       [exampleIssue ''ISSUE-0001'' SeverityCritical [], exampleIssue ''ISSUE-0003'' SeverityWarn [],
        exampleIssue ''ISSUE-0004'' SeverityWarn []]" by simp
  from FilterBySeverity_selection [where issues = mixedIssues and threshold = SeverityInfo] h n
  have d: "FilterBySeverity mixedIssues SeverityInfo = mixedIssues" by simp
  from h a b d show ?thesis by (simp add: list_all_iff)
qed

section \<open>Properties of validation\<close>

text \<open>
  Claim C7. Validation succeeds only if every evidence entry of every issue and
  question has 1 \<le> lineStart \<le> lineEnd and, for a positive line count, lineEnd at
  most the line count. With line count 0 an entry is accepted exactly when
  1 \<le> lineStart \<le> lineEnd, whatever the size of the numbers.
\<close>

theorem evidence_line_bounds:
  "(validateReport r lineCount = None \<or> Parse lib raw lineCount = Inr r \<longrightarrow>
      (\<forall>i\<in>set (Issues r). \<forall>ev\<in>set (Issue.Evidence i).
          1 \<le> LineStart ev \<and> LineStart ev \<le> LineEnd ev
          \<and> (0 < lineCount \<longrightarrow> LineEnd ev \<le> lineCount))
      \<and> (\<forall>x\<in>set (Questions r). \<forall>ev\<in>set (Question.Evidence x).
          1 \<le> LineStart ev \<and> LineStart ev \<le> LineEnd ev
          \<and> (0 < lineCount \<longrightarrow> LineEnd ev \<le> lineCount)))
   \<and> (validateEvidence entry pre 0 = None
        \<longleftrightarrow> 1 \<le> LineStart entry \<and> LineStart entry \<le> LineEnd entry)
   \<and> (validateEvidence entry pre lineCount = None
        \<longleftrightarrow> 1 \<le> LineStart entry \<and> LineStart entry \<le> LineEnd entry
            \<and> (0 < lineCount \<longrightarrow> LineEnd entry \<le> lineCount))"
proof (intro conjI impI)
  assume "validateReport r lineCount = None \<or> Parse lib raw lineCount = Inr r"
  then have v: "validateReport r lineCount = None"
    by (auto simp: Parse_Inr_iff)
  then have i: "\<forall>i\<in>set (Issues r). issueConstraints lineCount i"
    and q: "\<forall>x\<in>set (Questions r). questionConstraints lineCount x"
    by (simp_all add: validateReport_None_iff)
  from i show "\<forall>i\<in>set (Issues r). \<forall>ev\<in>set (Issue.Evidence i).
          1 \<le> LineStart ev \<and> LineStart ev \<le> LineEnd ev
          \<and> (0 < lineCount \<longrightarrow> LineEnd ev \<le> lineCount)"
    by (simp add: issueConstraints_def evidenceInBounds_def)
  from q show "\<forall>x\<in>set (Questions r). \<forall>ev\<in>set (Question.Evidence x).
          1 \<le> LineStart ev \<and> LineStart ev \<le> LineEnd ev
          \<and> (0 < lineCount \<longrightarrow> LineEnd ev \<le> lineCount)"
    by (simp add: questionConstraints_def evidenceInBounds_def)
next
  show "validateEvidence entry pre 0 = None
        \<longleftrightarrow> 1 \<le> LineStart entry \<and> LineStart entry \<le> LineEnd entry"
    by (simp add: validateEvidence_None_iff evidenceInBounds_def)
next
  show "validateEvidence entry pre lineCount = None
        \<longleftrightarrow> 1 \<le> LineStart entry \<and> LineStart entry \<le> LineEnd entry
            \<and> (0 < lineCount \<longrightarrow> LineEnd entry \<le> lineCount)"
    by (simp add: validateEvidence_None_iff evidenceInBounds_def)
qed

theorem evidence_line_bounds_witness:
  "Parse exampleLib goodJSON 10 = Inr goodReport
   \<and> list_all (\<lambda>i. list_all (\<lambda>ev. 1 \<le> LineStart ev \<and> LineStart ev \<le> LineEnd ev
                                  \<and> LineEnd ev \<le> 10) (Issue.Evidence i)) (Issues goodReport)
   \<and> validateEvidence (exampleEvidence 7 1000000) ''issue[0].evidence[0]'' 0 = None
   \<and> validateEvidence (exampleEvidence 1 50) ''issue[0].evidence[0]'' 10 \<noteq> None"
proof -
  have p: "Parse exampleLib goodJSON 10 = Inr goodReport" by code_simp
  note t = evidence_line_bounds [where r = goodReport and lib = exampleLib and raw = goodJSON
      and pre = "''issue[0].evidence[0]''"]
  from t [where lineCount = 10 and entry = "exampleEvidence 1 50"] p
  have a: "list_all (\<lambda>i. list_all (\<lambda>ev. 1 \<le> LineStart ev \<and> LineStart ev \<le> LineEnd ev
                                  \<and> LineEnd ev \<le> 10) (Issue.Evidence i)) (Issues goodReport)"
    by (simp add: list_all_iff)
  from t [where lineCount = 10 and entry = "exampleEvidence 7 1000000"]
  have b: "validateEvidence (exampleEvidence 7 1000000) ''issue[0].evidence[0]'' 0 = None"
    by (simp add: exampleEvidence_def)
  from t [where lineCount = 10 and entry = "exampleEvidence 1 50"]
  have c: "validateEvidence (exampleEvidence 1 50) ''issue[0].evidence[0]'' 10 \<noteq> None"
    by (simp add: exampleEvidence_def)
  from p a b c show ?thesis by blast
qed

text \<open>
  Claim C10. Validation never looks at the patches: replacing them changes nothing
  in the result of \<^verbatim>\<open>validateReport\<close>, and a decoded report whose issues and
  questions meet the constraints is returned by \<^verbatim>\<open>Parse\<close> as it was decoded, whatever
  its patches hold.
\<close>

theorem patches_not_validated:
  "validateReport (r\<lparr>Patches := ps\<rparr>) lineCount = validateReport r lineCount
   \<and> (Unmarshal lib (stripFences (TrimSpace lib) raw) = Inr r
        \<and> (\<forall>i\<in>set (Issues r). issueConstraints lineCount i)
        \<and> (\<forall>x\<in>set (Questions r). questionConstraints lineCount x)
      \<longrightarrow> Parse lib raw lineCount = Inr r)"
proof (intro conjI impI)
  show "validateReport (r\<lparr>Patches := ps\<rparr>) lineCount = validateReport r lineCount"
    by (simp add: validateReport_def split: option.splits)
next
  assume "Unmarshal lib (stripFences (TrimSpace lib) raw) = Inr r
        \<and> (\<forall>i\<in>set (Issues r). issueConstraints lineCount i)
        \<and> (\<forall>x\<in>set (Questions r). questionConstraints lineCount x)"
  then show "Parse lib raw lineCount = Inr r"
    by (simp add: Parse_Inr_iff validateReport_None_iff)
qed

theorem patches_not_validated_witness:
  "Unmarshal exampleLib (stripFences (TrimSpace exampleLib) goodJSON) = Inr goodReport
   \<and> list_all (issueConstraints 10) (Issues goodReport)
   \<and> list_all (questionConstraints 10) (Questions goodReport)
   \<and> Patches goodReport =
       [\<lparr>IssueID = [], Before = [], After = []\<rparr>,
        \<lparr>IssueID = ''ISSUE-9999'', Before = ''x'', After = ''y''\<rparr>,
        \<lparr>IssueID = ''seven'', Before = [], After = ''z''\<rparr>]
   \<and> Parse exampleLib goodJSON 10 = Inr goodReport"
proof -
  have u: "Unmarshal exampleLib (stripFences (TrimSpace exampleLib) goodJSON) = Inr goodReport"
    by code_simp
  have i: "list_all (issueConstraints 10) (Issues goodReport)" by code_simp
  have q: "list_all (questionConstraints 10) (Questions goodReport)" by code_simp
  have ps: "Patches goodReport =
       [\<lparr>IssueID = [], Before = [], After = []\<rparr>,
        \<lparr>IssueID = ''ISSUE-9999'', Before = ''x'', After = ''y''\<rparr>,
        \<lparr>IssueID = ''seven'', Before = [], After = ''z''\<rparr>]"
    by code_simp
  from patches_not_validated [where r = goodReport and lineCount = 10 and lib = exampleLib
      and raw = goodJSON] u i q
  have "Parse exampleLib goodJSON 10 = Inr goodReport"
    by (simp add: list_all_iff)
  with u i q ps show ?thesis by blast
qed




section \<open>Properties of the call with one repair attempt\<close>

lemma recording_step:
  "recording provider (p, calls) req =
     (fst (provider p req), (snd (provider p req), calls @ [req]))"
  by (simp add: recording_def split: prod.splits)

text \<open>
  The calls made. In every run \<^verbatim>\<open>Complete\<close> is called once or twice, first with the
  request given. It is called a second time exactly when the first answer arrived and
  failed validation; that request differs from the first only in the user prompt,
  which is the original one followed by the fixed sentence holding one of the seven
  category strings (printed by \<^verbatim>\<open>%q\<close>). Recording the calls does not change the result.
\<close>

theorem callWithRetry_calls:
  "(let run = callWithRetry lib (recording provider) (p, []) req lineCount;
        calls = snd (snd run)
    in fst run = fst (callWithRetry lib provider p req lineCount)
       \<and> length calls \<le> 2 \<and> take 1 calls = [req]
       \<and> (provider p req = (Inl m, p1) \<longrightarrow> calls = [req])
       \<and> (provider p req = (Inr resp, p1) \<and> Parse lib (Content resp) lineCount = Inr rep
            \<longrightarrow> calls = [req])
       \<and> (provider p req = (Inr resp, p1) \<and> Parse lib (Content resp) lineCount = Inl e
            \<longrightarrow> calls = [req, req\<lparr>UserPrompt := UserPrompt req @ repairSuffix (fmt_q lib) e\<rparr>])
       \<and> (\<forall>c\<in>set (drop 1 calls).
             SystemPrompt c = SystemPrompt req
             \<and> Request.Temperature c = Request.Temperature req
             \<and> MaxTokens c = MaxTokens req
             \<and> Request.Model c = Request.Model req
             \<and> (\<exists>cat\<in>set errorCategories.
                   UserPrompt c = UserPrompt req @ [CHR 0x0A, CHR 0x0A]
                     @ ''Your previous response failed schema validation (error category: ''
                     @ fmt_q lib cat
                     @ ''). Return only valid JSON matching the schema above.'')))"
proof -
  obtain a p' where first: "provider p req = (a, p')" by (cases "provider p req")
  show ?thesis
  proof (cases a)
    case (Inl m')
    with first show ?thesis
      by (simp add: callWithRetry_def recording_step Let_def)
  next
    case (Inr resp')
    show ?thesis
    proof (cases "Parse lib (Content resp') lineCount")
      case (Inr rep')
      with first \<open>a = Inr resp'\<close> show ?thesis
        by (auto simp: callWithRetry_def recording_step Let_def)
    next
      case (Inl e')
      let ?repair = "req\<lparr>UserPrompt := UserPrompt req @ repairSuffix (fmt_q lib) e'\<rparr>"
      obtain b p'' where second: "provider p' ?repair = (b, p'')"
        by (cases "provider p' ?repair")
      have cat: "sanitizeErrForPrompt (Error (fmt_q lib) e') \<in> set errorCategories"
        by (rule sanitizeErrForPrompt_in_categories)
      have calls: "snd (snd (callWithRetry lib (recording provider) (p, []) req lineCount))
          = [req, ?repair]"
        using first \<open>a = Inr resp'\<close> Inl second
        by (simp add: callWithRetry_def recording_step Let_def split: sum.splits)
      have res: "fst (callWithRetry lib (recording provider) (p, []) req lineCount)
          = fst (callWithRetry lib provider p req lineCount)"
        using first \<open>a = Inr resp'\<close> Inl second
        by (simp add: callWithRetry_def recording_step Let_def split: sum.splits)
      have suffix: "\<exists>cat\<in>set errorCategories.
          UserPrompt ?repair = UserPrompt req @ [CHR 0x0A, CHR 0x0A]
            @ ''Your previous response failed schema validation (error category: ''
            @ fmt_q lib cat
            @ ''). Return only valid JSON matching the schema above.''"
        using cat by (intro bexI [of _ "sanitizeErrForPrompt (Error (fmt_q lib) e')"])
          (simp_all add: repairSuffix_def)
      show ?thesis
        unfolding Let_def calls res
        using first \<open>a = Inr resp'\<close> Inl suffix by auto
    qed
  qed
qed

theorem callWithRetry_calls_witness:
  \<open>scripted threeAnswers exampleRequest
     = (answer outOfBoundsJSON, [answer outOfBoundsJSON, answer goodJSON])
   \<and> Parse exampleLib outOfBoundsJSON 10
     = Inl (LineEndExceedsCount ''issue[0].evidence[0]'' 50 10)
   \<and> snd (snd (callWithRetry exampleLib (recording scripted) (threeAnswers, []) exampleRequest 10))
     = [exampleRequest,
        exampleRequest\<lparr>UserPrompt := ''1: The system must be fast.'' @ [CHR 0x0A, CHR 0x0A]
          @ ''Your previous response failed schema validation (error category: "invalid line range in evidence"). Return only valid JSON matching the schema above.''\<rparr>]
   \<and> fst (snd (callWithRetry exampleLib (recording scripted) (threeAnswers, []) exampleRequest 10))
     = [answer goodJSON]\<close>
proof -
  let ?e = "LineEndExceedsCount ''issue[0].evidence[0]'' 50 10"
  have s: "scripted threeAnswers exampleRequest
     = (answer outOfBoundsJSON, [answer outOfBoundsJSON, answer goodJSON])"
    by (simp add: scripted_def threeAnswers_def)
  have c: "Content \<lparr>Content = outOfBoundsJSON, Response.Model = ''anthropic:claude''\<rparr>
      = outOfBoundsJSON" by simp
  have pe: "Parse exampleLib outOfBoundsJSON 10 = Inl ?e" by code_simp
  have suf: \<open>UserPrompt exampleRequest @ repairSuffix (fmt_q exampleLib) ?e
      = ''1: The system must be fast.'' @ [CHR 0x0A, CHR 0x0A]
          @ ''Your previous response failed schema validation (error category: "invalid line range in evidence"). Return only valid JSON matching the schema above.''\<close>
    by code_simp
  from callWithRetry_calls [where lib = exampleLib and provider = scripted and p = threeAnswers
      and req = exampleRequest and lineCount = 10 and e = ?e
      and resp = "\<lparr>Content = outOfBoundsJSON, Response.Model = ''anthropic:claude''\<rparr>"
      and ?p1.0 = "[answer outOfBoundsJSON, answer goodJSON]"] s pe
  have calls: "snd (snd (callWithRetry exampleLib (recording scripted) (threeAnswers, [])
        exampleRequest 10))
     = [exampleRequest,
        exampleRequest\<lparr>UserPrompt := UserPrompt exampleRequest @ repairSuffix (fmt_q exampleLib) ?e\<rparr>]"
    by (simp add: Let_def answer_def)
  have rest: "fst (snd (callWithRetry exampleLib (recording scripted) (threeAnswers, [])
        exampleRequest 10)) = [answer goodJSON]"
    using s pe
    by (simp add: callWithRetry_def recording_step Let_def answer_def scripted_def
        threeAnswers_def)
  from s pe calls rest show ?thesis unfolding suf by blast
qed

text \<open>A failure of \<^verbatim>\<open>json.Unmarshal\<close> is always reported as a JSON syntax error.\<close>

lemma sanitizeErrForPrompt_JSON:
  "sanitizeErrForPrompt (Error fq (JSONParseFailed m)) = ''JSON syntax error''"
  by (simp add: sanitizeErrForPrompt_def HasPrefix_def)

text \<open>
  Claim C5 on the code. The category in the repair prompt is chosen by looking for
  phrases in the message of the validation error, and that message quotes the
  rejected value as the model wrote it. An issue whose only defect is the identifier
  \<open>invalid severity\<close> fails the identifier rule, yet the phrase test for the severity
  case comes first and matches the quoted identifier: the second call names the
  severity category, not the identifier category that another bad identifier gets.
\<close>

theorem repair_category_steered:
  \<open>validateSeverity (Issue.Severity (hd (Issues steeringReport))) ''issue[0]'' = None
   \<and> Parse exampleLib steeringJSON 10 = Inl (IssueIDFormat ''issue[0]'' ''invalid severity'')
   \<and> Error quotePlain (IssueIDFormat ''issue[0]'' ''invalid severity'')
       = ''issue[0]: id "invalid severity" does not match ISSUE-XXXX format''
   \<and> sanitizeErrForPrompt (Error quotePlain (IssueIDFormat ''issue[0]'' ''invalid severity''))
       = ''invalid enum value (severity must be INFO, WARN, or CRITICAL)''
   \<and> sanitizeErrForPrompt (Error quotePlain (IssueIDFormat ''issue[0]'' ''ISS-1''))
       = ''invalid ID format''
   \<and> map UserPrompt
         (snd (snd (callWithRetry exampleLib (recording scripted)
                      ([answer steeringJSON, answer goodJSON], []) exampleRequest 10)))
       = [''1: The system must be fast.'',
          ''1: The system must be fast.'' @ [CHR 0x0A, CHR 0x0A]
            @ ''Your previous response failed schema validation (error category: "invalid enum value (severity must be INFO, WARN, or CRITICAL)"). Return only valid JSON matching the schema above.'']\<close>
  by code_simp

text \<open>
  Every error of \<^verbatim>\<open>callWithRetry\<close> leaves \<^verbatim>\<open>runCheck\<close> with exit code 5, whatever its kind.
\<close>

lemma runCheck_step11_code:
  "fst (runCheck_step11 lib provider p req lineCount) = Inl x \<Longrightarrow> code x = 5"
  by (auto simp: runCheck_step11_def codeError_def split: prod.splits sum.splits)

text \<open>
  Claim C4 on the code. A provider that cannot be reached on the first call, one that
  fails on the repair call, and a model whose output is invalid twice all end in
  exit code 5: the three kinds of error differ only in the text of the message.
\<close>

theorem exit_code_of_call_errors:
  "fst (runCheck_step11 exampleLib scripted [Inl ''connection refused''] exampleRequest 10)
     = Inl \<lparr>code = 5, msg = ''LLM call failed: connection refused''\<rparr>
   \<and> fst (runCheck_step11 exampleLib scripted [answer truncatedJSON, Inl ''connection reset'']
           exampleRequest 10)
     = Inl \<lparr>code = 5, msg = ''LLM retry call failed: connection reset''\<rparr>
   \<and> fst (runCheck_step11 exampleLib scripted [answer truncatedJSON, answer truncatedJSON]
           exampleRequest 10)
     = Inl \<lparr>code = 5, msg = ''invalid model output after retry: JSON parse failed: unexpected end of JSON input''\<rparr>"
  by code_simp

section \<open>Properties of patch anchoring\<close>
















end
